theory Spec2Isabelle
  imports Main
begin

section \<open>Values, errors and instances\<close>

text \<open>
  The embedding follows \<^verbatim>\<open>src/pydantic_property/prop.py\<close>. Python values are a small
  datatype; \<open>Undefined\<close> is the sentinel of the model system, \<open>PyClass n\<close> the class
  named \<open>n\<close> and \<open>PyObj n\<close> an opaque instance of the class named \<open>n\<close>.
\<close>

datatype pyval =
    PyNone
  | Undefined
  | PyBool bool
  | PyInt int
  | PyStr string
  | PyList "pyval list"
  | PyClass string
  | PyObj string

text \<open>\<^verbatim>\<open>value.__class__\<close>.\<close>

fun class_of :: "pyval \<Rightarrow> pyval" where
  "class_of PyNone = PyClass ''NoneType''"
| "class_of Undefined = PyClass ''UndefinedType''"
| "class_of (PyBool b) = PyClass ''bool''"
| "class_of (PyInt i) = PyClass ''int''"
| "class_of (PyStr s) = PyClass ''str''"
| "class_of (PyList xs) = PyClass ''list''"
| "class_of (PyClass n) = PyClass ''type''"
| "class_of (PyObj n) = PyClass n"

text \<open>Every raise of the source is a value of this type, carrying the message.\<close>

datatype error =
    AttributeError string
  | TypeError string
  | ValueError string
  | OtherError string

text \<open>
  An instance: \<open>dict\<close> is \<^verbatim>\<open>__dict__\<close>, the materialized map the model system
  serializes; \<open>slots\<close> holds the attributes stored outside it (the private slots);
  \<open>fields_set\<close> is \<^verbatim>\<open>__fields_set__\<close>.
\<close>

record inst =
  dict :: "string \<rightharpoonup> pyval"
  slots :: "string \<rightharpoonup> pyval"
  fields_set :: "string set"

text \<open>
  \<^verbatim>\<open>getattr(instance, name)\<close> for a name that is storage, not a descriptor: the private
  slot if it is set, else the entry of the materialized map, else AttributeError.
\<close>

definition py_getattr :: "inst \<Rightarrow> string \<Rightarrow> error + pyval" where
  "py_getattr s name =
     (case slots s name of
        Some v \<Rightarrow> Inr v
      | None \<Rightarrow>
          (case dict s name of
             Some v \<Rightarrow> Inr v
           | None \<Rightarrow> Inl (AttributeError name)))"

section \<open>The descriptor \<^verbatim>\<open>field_property\<close>\<close>

text \<open>
  An object in the position of \<^verbatim>\<open>default_factory\<close> is given by what calling it with no
  argument yields; \<open>SignatureEmpty\<close> is \<^verbatim>\<open>inspect.Signature.empty\<close>, which the
  constructor can put there. Calling that class makes an instance of it.
\<close>

datatype factory = Callable "error + pyval" | SignatureEmpty

fun call_factory :: "factory \<Rightarrow> error + pyval" where
  "call_factory (Callable r) = r"
| "call_factory SignatureEmpty = Inr (PyObj ''_empty'')"

text \<open>
  A getter is a read: a function of the instance that returns a value or raises, and
  leaves the instance as it is. \<open>InternalGetter\<close> is the bound method
  \<^verbatim>\<open>self.internal_getter\<close>, which reads the descriptor's attributes when it is called.
  A user function carries what \<^verbatim>\<open>inspect.signature(f).return_annotation\<close> gives for it
  (an error when \<^verbatim>\<open>inspect.signature\<close> raises). Setters and deleters change the
  instance; they return the instance as they left it, with the error if they raised.
\<close>

datatype getter = InternalGetter | UserGetter "error + factory" "inst \<Rightarrow> error + pyval"

type_synonym setter = "inst \<Rightarrow> pyval \<Rightarrow> error option \<times> inst"
type_synonym deleter = "inst \<Rightarrow> error option \<times> inst"

text \<open>The keyword arguments handed through to \<^verbatim>\<open>FieldInfo.__init__\<close> as they are.\<close>

record field_kwargs =
  field_alias :: pyval
  title :: pyval
  description :: pyval
  const :: pyval
  gt :: pyval
  ge :: pyval
  lt :: pyval
  le :: pyval
  multiple_of :: pyval
  min_items :: pyval
  max_items :: pyval
  min_length :: pyval
  max_length :: pyval
  regex :: pyval
  extra :: "(string \<times> pyval) list"

record field_property =
  default_value :: pyval
  default_factory :: "factory option"
  kwargs :: field_kwargs
  public_name :: "string option"
  private_name :: "string option"
  fget :: "getter option"
  fset :: "setter option"
  fdel :: "deleter option"

text \<open>The first argument of the constructor: None, a string, or a function.\<close>

datatype fget_arg = ArgNone | ArgStr string | ArgFn "error + factory" "inst \<Rightarrow> error + pyval"

text \<open>\<^verbatim>\<open>s.startswith(p)\<close>.\<close>

definition startswith :: "string \<Rightarrow> string \<Rightarrow> bool" where
  "startswith s p = (take (length p) s = p)"

text \<open>
  \<^verbatim>\<open>inspect.signature(self.fget).return_annotation\<close>: \<^verbatim>\<open>internal_getter\<close> is
  declared without one.
\<close>

fun return_annotation :: "getter \<Rightarrow> error + factory" where
  "return_annotation InternalGetter = Inr SignatureEmpty"
| "return_annotation (UserGetter ra body) = ra"

text \<open>
  \<^verbatim>\<open>field_property.__init__\<close>. The three names are the values of \<^verbatim>\<open>public_name\<close>,
  \<^verbatim>\<open>private_name\<close> and \<^verbatim>\<open>fget\<close> after the first \<^verbatim>\<open>if\<close>;
  \<^verbatim>\<open>FieldInfo.__init__\<close> stores the default, the factory and the keyword arguments.
\<close>

definition init ::
  "fget_arg \<Rightarrow> setter option \<Rightarrow> deleter option \<Rightarrow> pyval \<Rightarrow> string option \<Rightarrow> string option \<Rightarrow>
   factory option \<Rightarrow> field_kwargs \<Rightarrow> error + field_property" where
  "init fget_a fset_a fdel_a default_a public_name_a private_name_a default_factory_a kw =
     (let private_name1 = (case fget_a of ArgStr s \<Rightarrow> Some s | _ \<Rightarrow> private_name_a);
          public_name1 =
            (case fget_a of
               ArgStr s \<Rightarrow>
                 (if public_name_a = None \<and> startswith s ''_'' \<and> \<not> startswith s ''__''
                  then Some (drop 1 s) else public_name_a)
             | _ \<Rightarrow> public_name_a);
          fget1 =
            (case fget_a of
               ArgStr s \<Rightarrow> InternalGetter
             | ArgNone \<Rightarrow> InternalGetter
             | ArgFn ra body \<Rightarrow> UserGetter ra body);
          self = \<lparr>default_value = default_a, default_factory = default_factory_a, kwargs = kw,
                  public_name = public_name1, private_name = private_name1,
                  fget = Some fget1, fset = fset_a, fdel = fdel_a\<rparr>
      in if default_a \<noteq> Undefined \<and> default_factory_a \<noteq> None
         then
           (case return_annotation fget1 of
              Inl e \<Rightarrow> Inl e
            | Inr ra \<Rightarrow>
                Inr (self\<lparr>default_value := (if ra = SignatureEmpty then PyNone else default_a),
                          default_factory := Some ra\<rparr>))
         else Inr self)"

text \<open>\<^verbatim>\<open>__set_name__\<close>, and the builders \<^verbatim>\<open>getter\<close> (also \<^verbatim>\<open>__call__\<close>),
  \<^verbatim>\<open>setter\<close> and \<^verbatim>\<open>deleter\<close>, which return the descriptor itself.\<close>

definition set_name :: "field_property \<Rightarrow> string \<Rightarrow> field_property" where
  "set_name self name = self\<lparr>public_name := Some name\<rparr>"

definition getter :: "field_property \<Rightarrow> getter option \<Rightarrow> field_property" where
  "getter self g = self\<lparr>fget := g\<rparr>"

definition setter :: "field_property \<Rightarrow> setter option \<Rightarrow> field_property" where
  "setter self g = self\<lparr>fset := g\<rparr>"

definition deleter :: "field_property \<Rightarrow> deleter option \<Rightarrow> field_property" where
  "deleter self g = self\<lparr>fdel := g\<rparr>"

text \<open>\<^verbatim>\<open>get_default\<close> and \<^verbatim>\<open>get_type\<close>.\<close>

definition get_default :: "field_property \<Rightarrow> error + pyval" where
  "get_default self =
     (if default_value self \<noteq> Undefined then Inr (default_value self)
      else (case default_factory self of
              Some f \<Rightarrow> call_factory f
            | None \<Rightarrow> Inr Undefined))"

definition get_type :: "field_property \<Rightarrow> error + pyval" where
  "get_type self =
     (case get_default self of
        Inl e \<Rightarrow> Inl e
      | Inr d \<Rightarrow> if d = Undefined then Inr d else Inr (class_of d))"

text \<open>
  \<^verbatim>\<open>internal_getter\<close>. Only AttributeError is caught; in the handler the function
  raises the caught error again when no default resolves, and otherwise reaches its end
  with no \<^verbatim>\<open>return\<close>, so that the call yields None. A \<^verbatim>\<open>private_name\<close> that is
  None makes \<^verbatim>\<open>getattr\<close> raise TypeError.
\<close>

definition internal_getter :: "field_property \<Rightarrow> inst \<Rightarrow> error + pyval" where
  "internal_getter self instance =
     (case private_name self of
        None \<Rightarrow> Inl (TypeError ''attribute name must be string'')
      | Some p \<Rightarrow>
          (case py_getattr instance p of
             Inr v \<Rightarrow> Inr v
           | Inl (AttributeError m) \<Rightarrow>
               (case get_default self of
                  Inl e \<Rightarrow> Inl e
                | Inr d \<Rightarrow> if d = Undefined then Inl (AttributeError m) else Inr PyNone)
           | Inl e \<Rightarrow> Inl e))"

fun call_getter :: "field_property \<Rightarrow> getter \<Rightarrow> inst \<Rightarrow> error + pyval" where
  "call_getter self InternalGetter obj = internal_getter self obj"
| "call_getter self (UserGetter ra body) obj = body obj"

text \<open>
  \<^verbatim>\<open>__get__\<close> on an instance (on the class, where \<^verbatim>\<open>obj\<close> is None, it returns the
  descriptor: that is \<open>cls_attrs\<close> below), \<^verbatim>\<open>__set__\<close> and \<^verbatim>\<open>__delete__\<close>.
\<close>

definition descr_get :: "field_property \<Rightarrow> inst \<Rightarrow> error + pyval" where
  "descr_get self obj =
     (case fget self of
        None \<Rightarrow> Inl (AttributeError ''unreadable attribute'')
      | Some g \<Rightarrow> call_getter self g obj)"

definition descr_set :: "field_property \<Rightarrow> inst \<Rightarrow> pyval \<Rightarrow> error option \<times> inst" where
  "descr_set self obj v =
     (case fset self of
        None \<Rightarrow> (Some (AttributeError ''can't set attribute''), obj)
      | Some g \<Rightarrow> g obj v)"

definition descr_delete :: "field_property \<Rightarrow> inst \<Rightarrow> error option \<times> inst" where
  "descr_delete self obj =
     (case fdel self of
        None \<Rightarrow> (Some (AttributeError ''can't delete attribute''), obj)
      | Some g \<Rightarrow> g obj)"

text \<open>The calls that change a descriptor after its construction.\<close>

datatype builder_call =
    SetName string
  | Getter "getter option"
  | Setter "setter option"
  | Deleter "deleter option"

fun apply_call :: "field_property \<Rightarrow> builder_call \<Rightarrow> field_property" where
  "apply_call self (SetName name) = set_name self name"
| "apply_call self (Getter g) = getter self g"
| "apply_call self (Setter g) = setter self g"
| "apply_call self (Deleter g) = deleter self g"

section \<open>Classes and the write protocol of \<^verbatim>\<open>PropertyModel\<close>\<close>

text \<open>
  What a class body or a class holds under a name: a descriptor, a private storage
  declaration \<^verbatim>\<open>PrivateAttr(default, default_factory)\<close>, the dictionary of annotations,
  or any other value.
\<close>

datatype ns_entry =
    FP field_property
  | PrivAttr pyval "factory option"
  | AnnDict "string \<rightharpoonup> pyval"
  | Other pyval

text \<open>
  A class: \<open>cls_attrs\<close> is what attribute lookup on the class finds (its own and
  inherited attributes); \<open>field_properties\<close> is the attribute
  \<^verbatim>\<open>__field_properties__\<close>, a reference to a list object when the class has it. List
  objects live in a store, a list indexed by address, so that two classes can share one.
\<close>

record pyclass =
  cls_attrs :: "string \<rightharpoonup> ns_entry"
  field_properties :: "nat option"

type_synonym list_store = "string list list"

definition list_at :: "list_store \<Rightarrow> nat \<Rightarrow> string list" where
  "list_at st a = (if a < length st then st ! a else [])"

text \<open>\<^verbatim>\<open>getattr(c, '__field_properties__', [])\<close>.\<close>

definition registry :: "list_store \<Rightarrow> pyclass \<Rightarrow> string list" where
  "registry st c = (case field_properties c of Some a \<Rightarrow> list_at st a | None \<Rightarrow> [])"

text \<open>
  \<^verbatim>\<open>object.__getattribute__(self, name)\<close>: a descriptor on the class is read through
  \<^verbatim>\<open>__get__\<close>; otherwise the instance's storage, then a plain class attribute.
\<close>

definition object_getattr :: "pyclass \<Rightarrow> inst \<Rightarrow> string \<Rightarrow> error + pyval" where
  "object_getattr c self name =
     (case cls_attrs c name of
        Some (FP prop) \<Rightarrow> descr_get prop self
      | Some (Other v) \<Rightarrow> (case py_getattr self name of Inr x \<Rightarrow> Inr x | Inl e \<Rightarrow> Inr v)
      | _ \<Rightarrow> py_getattr self name)"

text \<open>
  \<^verbatim>\<open>del self.name\<close>: \<^verbatim>\<open>PropertyModel\<close> defines no \<^verbatim>\<open>__delattr__\<close>, so a descriptor on
  the class is deleted through \<^verbatim>\<open>__delete__\<close>, and any other name from the storage.
\<close>

definition object_delattr :: "pyclass \<Rightarrow> inst \<Rightarrow> string \<Rightarrow> error option \<times> inst" where
  "object_delattr c self name =
     (case cls_attrs c name of
        Some (FP prop) \<Rightarrow> descr_delete prop self
      | _ \<Rightarrow>
          (if name \<in> dom (slots self) then (None, self\<lparr>slots := (slots self)(name := None)\<rparr>)
           else if name \<in> dom (dict self) then (None, self\<lparr>dict := (dict self)(name := None)\<rparr>)
           else (Some (AttributeError name), self)))"

text \<open>
  The dictionary comprehension of \<^verbatim>\<open>__setattr__\<close> reads every name of the registry in
  order and stops at the first read that raises; \<^verbatim>\<open>update\<close> runs only on the finished
  comprehension.
\<close>

fun read_all :: "pyclass \<Rightarrow> inst \<Rightarrow> string list \<Rightarrow> error + (string \<times> pyval) list" where
  "read_all c self [] = Inr []"
| "read_all c self (name # names) =
     (case object_getattr c self name of
        Inl e \<Rightarrow> Inl e
      | Inr v \<Rightarrow>
          (case read_all c self names of
             Inl e \<Rightarrow> Inl e
           | Inr kvs \<Rightarrow> Inr ((name, v) # kvs)))"

fun py_dict_update :: "(string \<rightharpoonup> pyval) \<Rightarrow> (string \<times> pyval) list \<Rightarrow> (string \<rightharpoonup> pyval)" where
  "py_dict_update d [] = d"
| "py_dict_update d ((k, v) # kvs) = py_dict_update (d(k \<mapsto> v)) kvs"

definition refresh :: "pyclass \<Rightarrow> string list \<Rightarrow> inst \<Rightarrow> error option \<times> inst" where
  "refresh c names self =
     (case read_all c self names of
        Inl e \<Rightarrow> (Some e, self)
      | Inr kvs \<Rightarrow> (None, self\<lparr>dict := py_dict_update (dict self) kvs\<rparr>))"

text \<open>
  \<^verbatim>\<open>PropertyModel.__setattr__\<close>. The first argument is \<^verbatim>\<open>super().__setattr__\<close>, the
  write path of the model system. \<^verbatim>\<open>object_setattr(self, name, value)\<close> runs under the
  guard that the class attribute is a descriptor, so it is that descriptor's
  \<^verbatim>\<open>__set__\<close>.
\<close>

definition setattr ::
  "(inst \<Rightarrow> string \<Rightarrow> pyval \<Rightarrow> error option \<times> inst) \<Rightarrow> list_store \<Rightarrow> pyclass \<Rightarrow> inst \<Rightarrow> string \<Rightarrow> pyval \<Rightarrow>
   error option \<times> inst" where
  "setattr super_setattr st c self name v =
     (case super_setattr self name v of
        (Some e, self1) \<Rightarrow> (Some e, self1)
      | (None, self1) \<Rightarrow>
          (case cls_attrs c name of
             Some (FP prop) \<Rightarrow>
               (if name \<in> dom (dict self1)
                then
                  (case descr_set prop self1 v of
                     (Some e, self2) \<Rightarrow> (Some e, self2)
                   | (None, self2) \<Rightarrow> refresh c (registry st c) self2)
                else (None, self1))
           | _ \<Rightarrow> (None, self1)))"

text \<open>
  The reads of the names do not depend on the materialized map of the instance: whatever
  the map is replaced by, they give the same result.
\<close>

definition map_independent :: "pyclass \<Rightarrow> string list \<Rightarrow> inst \<Rightarrow> bool" where
  "map_independent c names self =
     (\<forall>name\<in>set names. \<forall>d. object_getattr c (self\<lparr>dict := d\<rparr>) name = object_getattr c self name)"

section \<open>The metaclass \<^verbatim>\<open>PropertyModelMetaclass\<close>\<close>

text \<open>
  A class body is a dictionary in declaration order: an association list with one entry
  per name. Assigning to a name replaces the entry where it stands or appends a new one.
\<close>

type_synonym namespace = "(string \<times> ns_entry) list"

fun ns_set :: "namespace \<Rightarrow> string \<Rightarrow> ns_entry \<Rightarrow> namespace" where
  "ns_set [] k e = [(k, e)]"
| "ns_set ((k', e') # ns) k e = (if k' = k then (k, e) # ns else (k', e') # ns_set ns k e)"

text \<open>\<^verbatim>\<open>namespace.get('__annotations__', {})\<close>.\<close>

definition class_annotations :: "namespace \<Rightarrow> (string \<rightharpoonup> pyval)" where
  "class_annotations namespace =
     (case map_of namespace ''__annotations__'' of
        Some (AnnDict a) \<Rightarrow> a
      | _ \<Rightarrow> Map.empty)"

text \<open>
  \<^verbatim>\<open>PrivateAttr(default=d, default_factory=f)\<close> of the model system makes the private
  storage declaration, and raises when it is given a default together with a factory.
\<close>

definition private_attr :: "pyval \<Rightarrow> factory option \<Rightarrow> error + ns_entry" where
  "private_attr d f =
     (if d \<noteq> Undefined \<and> f \<noteq> None
      then Inl (ValueError ''cannot specify both default and default_factory'')
      else Inr (PrivAttr d f))"

text \<open>
  The body of the first loop for one descriptor: validate it (the validator is the model
  system's \<^verbatim>\<open>FieldInfo._validate\<close>), annotate its name with \<^verbatim>\<open>get_type()\<close> when the
  name has no annotation, and assign the private storage declaration when
  \<^verbatim>\<open>private_name\<close> is a non-empty string.
\<close>

definition register_field ::
  "(field_property \<Rightarrow> error option) \<Rightarrow> string \<Rightarrow> field_property \<Rightarrow>
   (string \<rightharpoonup> pyval) \<times> namespace \<Rightarrow> error + (string \<rightharpoonup> pyval) \<times> namespace" where
  "register_field validate varname field st =
     (case st of (annotations, namespace) \<Rightarrow>
        (case validate field of
           Some e \<Rightarrow> Inl e
         | None \<Rightarrow>
             (case (if varname \<notin> dom annotations
                    then (case get_type field of
                            Inl e \<Rightarrow> Inl e
                          | Inr t \<Rightarrow> Inr (annotations(varname \<mapsto> t)))
                    else Inr annotations) of
                Inl e \<Rightarrow> Inl e
              | Inr annotations1 \<Rightarrow>
                  (case private_name field of
                     Some p \<Rightarrow>
                       if p \<noteq> []
                       then
                         (case private_attr (default_value field) (default_factory field) of
                            Inl e \<Rightarrow> Inl e
                          | Inr declaration \<Rightarrow> Inr (annotations1, ns_set namespace p declaration))
                       else Inr (annotations1, namespace)
                   | None \<Rightarrow> Inr (annotations1, namespace)))))"

text \<open>The first loop, over \<^verbatim>\<open>list(namespace.items())\<close>, a copy taken before the loop.\<close>

fun register_fields ::
  "(field_property \<Rightarrow> error option) \<Rightarrow> namespace \<Rightarrow>
   (string \<rightharpoonup> pyval) \<times> namespace \<Rightarrow> error + (string \<rightharpoonup> pyval) \<times> namespace" where
  "register_fields validate [] st = Inr st"
| "register_fields validate ((varname, entry) # rest) st =
     (case entry of
        FP field \<Rightarrow>
          (case register_field validate varname field st of
             Inl e \<Rightarrow> Inl e
           | Inr st1 \<Rightarrow> register_fields validate rest st1)
      | _ \<Rightarrow> register_fields validate rest st)"








section \<open>Example classes and instances\<close>

text \<open>
  The inputs the theorems are exercised at, after \<^verbatim>\<open>src/tests/test_pydantic_property.py\<close>.
  \<open>no_kwargs\<close> leaves every keyword argument at None.
\<close>

definition no_kwargs :: field_kwargs where
  "no_kwargs =
     \<lparr>field_alias = PyNone, title = PyNone, description = PyNone, const = PyNone, gt = PyNone,
      ge = PyNone, lt = PyNone, le = PyNone, multiple_of = PyNone, min_items = PyNone,
      max_items = PyNone, min_length = PyNone, max_length = PyNone, regex = PyNone, extra = []\<rparr>"

text \<open>
  The write path of the model system in its default configuration: a private attribute
  is set on the object, a name that is no field is refused, a field is stored in the
  materialized map and recorded as set.
\<close>

definition model_system_setattr ::
  "string list \<Rightarrow> string list \<Rightarrow> inst \<Rightarrow> string \<Rightarrow> pyval \<Rightarrow> error option \<times> inst" where
  "model_system_setattr private_attributes field_names self name v =
     (if name \<in> set private_attributes
      then (None, self\<lparr>slots := (slots self)(name \<mapsto> v)\<rparr>)
      else if name \<notin> set field_names
      then (Some (ValueError ''object has no field''), self)
      else (None, self\<lparr>dict := (dict self)(name \<mapsto> v),
                        fields_set := insert name (fields_set self)\<rparr>))"

text \<open>The setter \<^verbatim>\<open>self._x = value\<close> of a private slot.\<close>

definition slot_setter :: "string \<Rightarrow> setter" where
  "slot_setter p = (\<lambda>self v. (None, self\<lparr>slots := (slots self)(p \<mapsto> v)\<rparr>))"

text \<open>\<^verbatim>\<open>x = field_property('_x', default=0)\<close> with the setter \<^verbatim>\<open>self._x = value\<close>.\<close>

definition x_prop :: field_property where
  "x_prop =
     \<lparr>default_value = PyInt 0, default_factory = None, kwargs = no_kwargs,
      public_name = Some ''x'', private_name = Some ''_x'',
      fget = Some InternalGetter, fset = Some (slot_setter ''_x''), fdel = None\<rparr>"

text \<open>The same descriptor as the constructor leaves it, before a setter is attached.\<close>

definition x_shorthand :: field_property where
  "x_shorthand =
     \<lparr>default_value = PyInt 0, default_factory = None, kwargs = no_kwargs,
      public_name = Some ''x'', private_name = Some ''_x'',
      fget = Some InternalGetter, fset = None, fdel = None\<rparr>"

text \<open>An instance on which nothing is stored.\<close>

definition bare_instance :: inst where
  "bare_instance = \<lparr>dict = Map.empty, slots = Map.empty, fields_set = {}\<rparr>"

text \<open>\<^verbatim>\<open>z = field_property('_z')\<close>: no default, no setter.\<close>

definition z_prop :: field_property where
  "z_prop =
     \<lparr>default_value = Undefined, default_factory = None, kwargs = no_kwargs,
      public_name = Some ''z'', private_name = Some ''_z'',
      fget = Some InternalGetter, fset = None, fdel = None\<rparr>"

text \<open>A class with the descriptor \<open>x\<close>, its registry at address 0; an instance of it.\<close>

definition Props :: pyclass where
  "Props = \<lparr>cls_attrs = [''x'' \<mapsto> FP x_prop], field_properties = Some 0\<rparr>"

definition props_store :: list_store where
  "props_store = [[''x'']]"

definition p0 :: inst where
  "p0 = \<lparr>dict = [''x'' \<mapsto> PyInt 0], slots = [''_x'' \<mapsto> PyInt 0], fields_set = {}\<rparr>"

text \<open>A class with the descriptors \<open>x\<close> and \<open>z\<close>; the slot of \<open>z\<close> is never set.\<close>

definition PropsZ :: pyclass where
  "PropsZ = \<lparr>cls_attrs = [''x'' \<mapsto> FP x_prop, ''z'' \<mapsto> FP z_prop], field_properties = Some 0\<rparr>"

definition propsz_store :: list_store where
  "propsz_store = [[''x'', ''z'']]"

text \<open>
  The check of the model system on a field: a default and a factory exclude each other.
\<close>

definition field_info_validate :: "field_property \<Rightarrow> error option" where
  "field_info_validate field =
     (if default_value field \<noteq> Undefined \<and> default_factory field \<noteq> None
      then Some (ValueError ''cannot specify both default and default_factory'')
      else None)"

text \<open>
  Class bodies: one that declares the private slot of \<open>x\<close> itself, with another default;
  one with an annotated field \<open>a\<close> and a descriptor \<open>z\<close> that has neither annotation nor
  default; and a subclass body that declares \<open>x\<close> again, beside a new descriptor \<open>z\<close>,
  both annotated.
\<close>

definition declared_slot_body :: namespace where
  "declared_slot_body = [(''_x'', PrivAttr (PyInt 5) None), (''x'', FP x_prop)]"


definition sub_body :: namespace where
  "sub_body =
     [(''__annotations__'', AnnDict [''x'' \<mapsto> PyClass ''int'', ''z'' \<mapsto> PyClass ''int'']),
      (''x'', FP x_shorthand), (''z'', FP z_prop)]"


section \<open>The descriptor: construction, binding, reads, writes and deletes\<close>

text \<open>
  Claim C6. A descriptor built from a private-slot name that starts with one underscore
  and not with two gets, when no public name is given, the slot name without that
  underscore as its public name; a public name that is given is kept. The constructor
  does not fail on a string, and the string becomes the private name.
\<close>

theorem init_public_name_from_slot:
  assumes "startswith s ''_''" and "\<not> startswith s ''__''"
  shows "\<exists>self. init (ArgStr s) fset_a fdel_a default_a public_name_a private_name_a default_factory_a kw = Inr self
         \<and> public_name self = (case public_name_a of None \<Rightarrow> Some (drop 1 s) | Some p \<Rightarrow> Some p)
         \<and> private_name self = Some s"
  using assms by (auto simp: init_def Let_def split: option.splits)

theorem init_public_name_from_slot_witness:
  "startswith ''_x'' ''_'' \<and> \<not> startswith ''_x'' ''__''
   \<and> init (ArgStr ''_x'') None None (PyInt 0) None None None no_kwargs = Inr x_shorthand
   \<and> public_name x_shorthand = Some ''x''"
proof -
  have a: "startswith ''_x'' ''_''" and b: "\<not> startswith ''_x'' ''__''"
    by (simp_all add: startswith_def)
  have c: "init (ArgStr ''_x'') None None (PyInt 0) None None None no_kwargs = Inr x_shorthand"
    by (simp add: init_def Let_def startswith_def x_shorthand_def)
  from init_public_name_from_slot[OF a b, of None None "PyInt 0" None None None no_kwargs]
  have "public_name x_shorthand = Some ''x''" using c by simp
  then show ?thesis using a b c by simp
qed

text \<open>
  Claim C9. Binding sets the public name to the bound attribute name and changes no
  other attribute of the descriptor: the private name, the getter, setter and deleter,
  the default, the factory and the keyword arguments are as before.
\<close>

theorem set_name_frame:
  "set_name self name = self\<lparr>public_name := Some name\<rparr>
   \<and> public_name (set_name self name) = Some name
   \<and> private_name (set_name self name) = private_name self
   \<and> fget (set_name self name) = fget self
   \<and> fset (set_name self name) = fset self
   \<and> fdel (set_name self name) = fdel self
   \<and> default_value (set_name self name) = default_value self
   \<and> default_factory (set_name self name) = default_factory self
   \<and> kwargs (set_name self name) = kwargs self"
  by (simp add: set_name_def)

text \<open>
  The getter is set by the constructor, and of the calls that change a descriptor only
  \<^verbatim>\<open>getter\<close> with None takes it away.
\<close>

lemma init_fget: "init a fs fd d pub priv df kw = Inr self \<Longrightarrow> fget self \<noteq> None"
  by (auto simp: init_def Let_def split: if_splits sum.splits)

lemma calls_fget:
  "fget (foldl apply_call self calls) = None \<Longrightarrow> fget self \<noteq> None \<Longrightarrow> Getter None \<in> set calls"
proof (induction calls arbitrary: self)
  case Nil
  then show ?case by simp
next
  case (Cons c calls)
  show ?case
  proof (cases c)
    case (Getter g)
    then show ?thesis using Cons by (cases g) (auto simp: getter_def)
  qed (use Cons in \<open>auto simp: set_name_def setter_def deleter_def\<close>)
qed

text \<open>
  Claim C10. A descriptor the constructor returns has a getter, so an instance read calls
  it and does not take the branch of the unreadable attribute. After any sequence of
  binding and builder calls the getter is missing only if \<^verbatim>\<open>getter\<close> was called with
  None; the read then raises the unreadable-attribute error.
\<close>

theorem constructed_fget_not_none:
  assumes "init fget_a fset_a fdel_a default_a public_name_a private_name_a default_factory_a kw = Inr self"
  shows "(\<exists>g. fget self = Some g \<and> (\<forall>obj. descr_get self obj = call_getter self g obj))
       \<and> (\<forall>calls. fget (foldl apply_call self calls) = None \<longrightarrow> Getter None \<in> set calls)
       \<and> (\<forall>calls obj. fget (foldl apply_call self calls) = None \<longrightarrow>
             descr_get (foldl apply_call self calls) obj = Inl (AttributeError ''unreadable attribute''))"
proof -
  have g: "fget self \<noteq> None" using init_fget[OF assms] .
  then have "\<exists>g. fget self = Some g \<and> (\<forall>obj. descr_get self obj = call_getter self g obj)"
    by (auto simp: descr_get_def)
  moreover have "\<forall>calls. fget (foldl apply_call self calls) = None \<longrightarrow> Getter None \<in> set calls"
    using calls_fget g by blast
  moreover have "\<forall>calls obj. fget (foldl apply_call self calls) = None \<longrightarrow>
      descr_get (foldl apply_call self calls) obj = Inl (AttributeError ''unreadable attribute'')"
    by (simp add: descr_get_def)
  ultimately show ?thesis by blast
qed

theorem constructed_fget_not_none_witness:
  "init (ArgStr ''_x'') None None (PyInt 0) None None None no_kwargs = Inr x_shorthand
   \<and> fget x_shorthand = Some InternalGetter
   \<and> fget (foldl apply_call x_shorthand [SetName ''x'', Setter (Some (slot_setter ''_x''))]) \<noteq> None"
proof -
  have c: "init (ArgStr ''_x'') None None (PyInt 0) None None None no_kwargs = Inr x_shorthand"
    by (simp add: init_def Let_def startswith_def x_shorthand_def)
  have n: "Getter None \<notin> set [SetName ''x'', Setter (Some (slot_setter ''_x''))]" by simp
  from constructed_fget_not_none[OF c]
  have "fget (foldl apply_call x_shorthand [SetName ''x'', Setter (Some (slot_setter ''_x''))]) = None \<longrightarrow>
          Getter None \<in> set [SetName ''x'', Setter (Some (slot_setter ''_x''))]"
    by blast
  then have "fget (foldl apply_call x_shorthand [SetName ''x'', Setter (Some (slot_setter ''_x''))]) \<noteq> None"
    using n by blast
  moreover have "fget x_shorthand = Some InternalGetter" by (simp add: x_shorthand_def)
  ultimately show ?thesis using c by simp
qed

text \<open>
  Claim C2. The descriptor \<^verbatim>\<open>field_property('_x', default=0)\<close> resolves the default 0,
  and on an instance whose slot \<^verbatim>\<open>_x\<close> is absent the lookup of the slot raises
  AttributeError; the read then returns None, not the default: the handler of
  \<^verbatim>\<open>internal_getter\<close> computes the default and tests it, and has no \<^verbatim>\<open>return\<close>.
\<close>

theorem internal_getter_drops_default:
  "init (ArgStr ''_x'') None None (PyInt 0) None None None no_kwargs = Inr x_shorthand
   \<and> get_default x_shorthand = Inr (PyInt 0)
   \<and> py_getattr bare_instance ''_x'' = Inl (AttributeError ''_x'')
   \<and> descr_get x_shorthand bare_instance = Inr PyNone"
  by (simp add: init_def Let_def startswith_def x_shorthand_def bare_instance_def get_default_def
      descr_get_def internal_getter_def py_getattr_def)

text \<open>
  Claim C7. A descriptor with no deleter raises the error \<^verbatim>\<open>can't delete attribute\<close> on
  delete, at the descriptor and through \<^verbatim>\<open>del\<close> on an instance of a class that holds
  it, and the instance (so its materialized map) is as before. A descriptor with no
  setter raises \<^verbatim>\<open>can't set attribute\<close> on write, at the descriptor and through an
  attribute write whose standard path stored the name.
\<close>

theorem missing_deleter_or_setter_raises:
  "(fdel prop = None \<longrightarrow>
      descr_delete prop self = (Some (AttributeError ''can't delete attribute''), self))
 \<and> (fdel prop = None \<and> cls_attrs c name = Some (FP prop) \<longrightarrow>
      object_delattr c self name = (Some (AttributeError ''can't delete attribute''), self))
 \<and> (fset prop = None \<longrightarrow>
      descr_set prop self v = (Some (AttributeError ''can't set attribute''), self))
 \<and> (fset prop = None \<and> cls_attrs c name = Some (FP prop) \<and> super_setattr self name v = (None, self1)
      \<and> name \<in> dom (dict self1) \<longrightarrow>
      setattr super_setattr st c self name v = (Some (AttributeError ''can't set attribute''), self1))"
  by (simp add: descr_delete_def object_delattr_def descr_set_def setattr_def)

theorem missing_deleter_or_setter_raises_witness:
  "fdel z_prop = None \<and> fset z_prop = None \<and> cls_attrs PropsZ ''z'' = Some (FP z_prop)
   \<and> object_delattr PropsZ p0 ''z'' = (Some (AttributeError ''can't delete attribute''), p0)
   \<and> dict (snd (object_delattr PropsZ p0 ''z'')) = dict p0
   \<and> descr_set z_prop p0 (PyInt 1) = (Some (AttributeError ''can't set attribute''), p0)
   \<and> setattr (model_system_setattr [''_x'', ''_z''] [''x'', ''z'']) propsz_store PropsZ p0 ''z'' (PyInt 1)
       = (Some (AttributeError ''can't set attribute''),
          p0\<lparr>dict := (dict p0)(''z'' \<mapsto> PyInt 1), fields_set := {''z''}\<rparr>)"
proof -
  let ?base = "model_system_setattr [''_x'', ''_z''] [''x'', ''z'']"
  let ?p1 = "p0\<lparr>dict := (dict p0)(''z'' \<mapsto> PyInt 1), fields_set := {''z''}\<rparr>"
  have a: "fdel z_prop = None" and b: "fset z_prop = None" by (simp_all add: z_prop_def)
  have c: "cls_attrs PropsZ ''z'' = Some (FP z_prop)" by (simp add: PropsZ_def)
  have d: "?base p0 ''z'' (PyInt 1) = (None, ?p1)" by (simp add: model_system_setattr_def p0_def)
  have e: "''z'' \<in> dom (dict ?p1)" by simp
  note T = missing_deleter_or_setter_raises[of z_prop p0 PropsZ "''z''" "PyInt 1" ?base ?p1 propsz_store]
  have "object_delattr PropsZ p0 ''z'' = (Some (AttributeError ''can't delete attribute''), p0)"
    using T a c by blast
  moreover have "descr_set z_prop p0 (PyInt 1) = (Some (AttributeError ''can't set attribute''), p0)"
    using T b by blast
  moreover have "setattr ?base propsz_store PropsZ p0 ''z'' (PyInt 1)
       = (Some (AttributeError ''can't set attribute''), ?p1)"
    using T b c d e by blast
  ultimately show ?thesis using a b c by simp
qed

section \<open>The write protocol\<close>

text \<open>The comprehension fails exactly when a read fails, and otherwise pairs each name
  with what its read returned; the update then changes the map at those names only.\<close>

lemma read_all_Inl: "read_all c s names = Inl e \<Longrightarrow> \<exists>n\<in>set names. object_getattr c s n = Inl e"
  by (induction names arbitrary: e) (auto split: sum.splits)

lemma read_all_Inr:
  "read_all c s names = Inr kvs \<Longrightarrow>
     kvs = map (\<lambda>n. (n, projr (object_getattr c s n))) names \<and>
     (\<forall>n\<in>set names. \<exists>v. object_getattr c s n = Inr v)"
  by (induction names arbitrary: kvs) (auto split: sum.splits)

lemma read_all_fails:
  "n \<in> set names \<Longrightarrow> object_getattr c s n = Inl e0 \<Longrightarrow> \<exists>e. read_all c s names = Inl e"
  by (induction names) (auto split: sum.splits)

lemma py_dict_update_other: "k \<notin> fst ` set kvs \<Longrightarrow> py_dict_update d kvs k = d k"
  by (induction d kvs rule: py_dict_update.induct) auto

lemma py_dict_update_reads:
  "k \<in> set names \<Longrightarrow> py_dict_update d (map (\<lambda>n. (n, g n)) names) k = Some (g k)"
proof (induction names arbitrary: d)
  case Nil then show ?case by simp
next
  case (Cons n names)
  show ?case
  proof (cases "k \<in> set names")
    case True
    then show ?thesis using Cons.IH by simp
  next
    case False
    then have "k = n" using Cons.prems by simp
    moreover have "k \<notin> fst ` set (map (\<lambda>n. (n, g n)) names)" using False by (auto simp: image_iff)
    ultimately show ?thesis by (simp add: py_dict_update_other)
  qed
qed

lemma refresh_None:
  assumes "refresh c names s = (None, s')"
  shows "slots s' = slots s \<and> fields_set s' = fields_set s
       \<and> (\<forall>k. k \<notin> set names \<longrightarrow> dict s' k = dict s k)
       \<and> (\<forall>n\<in>set names. \<exists>x. object_getattr c s n = Inr x \<and> dict s' n = Some x)
       \<and> s' = s\<lparr>dict := dict s'\<rparr>"
proof (cases "read_all c s names")
  case (Inl e)
  then show ?thesis using assms by (simp add: refresh_def)
next
  case (Inr kvs)
  then have s': "s' = s\<lparr>dict := py_dict_update (dict s) kvs\<rparr>" using assms by (simp add: refresh_def)
  from read_all_Inr[OF Inr] have kvs: "kvs = map (\<lambda>n. (n, projr (object_getattr c s n))) names"
    and ok: "\<forall>n\<in>set names. \<exists>v. object_getattr c s n = Inr v" by auto
  have other: "\<forall>k. k \<notin> set names \<longrightarrow> dict s' k = dict s k"
    using s' kvs by (auto simp: py_dict_update_other image_iff)
  have reads: "\<forall>n\<in>set names. \<exists>x. object_getattr c s n = Inr x \<and> dict s' n = Some x"
  proof
    fix n assume n: "n \<in> set names"
    then obtain v where v: "object_getattr c s n = Inr v" using ok by auto
    have "dict s' n = Some (projr (object_getattr c s n))"
      using s' kvs n by (simp add: py_dict_update_reads)
    then show "\<exists>x. object_getattr c s n = Inr x \<and> dict s' n = Some x" using v by simp
  qed
  show ?thesis using s' other reads by simp
qed

text \<open>After a write that passes the guard and completes, the setter has run and the
  result is the refresh of the instance it left.\<close>

lemma setattr_refresh:
  assumes "setattr super_setattr st c self name v = (None, self')"
      and "cls_attrs c name = Some (FP prop)"
      and "name \<in> dom (dict (snd (super_setattr self name v)))"
  shows "\<exists>self2. descr_set prop (snd (super_setattr self name v)) v = (None, self2)
          \<and> slots self' = slots self2 \<and> fields_set self' = fields_set self2
          \<and> (\<forall>k. k \<notin> set (registry st c) \<longrightarrow> dict self' k = dict self2 k)
          \<and> (\<forall>n\<in>set (registry st c). \<exists>x. object_getattr c self2 n = Inr x \<and> dict self' n = Some x)
          \<and> (map_independent c (registry st c) self2 \<longrightarrow>
               (\<forall>n\<in>set (registry st c). \<exists>x. object_getattr c self' n = Inr x \<and> dict self' n = Some x))"
proof -
  obtain r1 self1 where b: "super_setattr self name v = (r1, self1)" by (cases "super_setattr self name v")
  obtain r2 self2 where d: "descr_set prop self1 v = (r2, self2)" by (cases "descr_set prop self1 v")
  have in1: "name \<in> dom (dict self1)" using assms(3) b by simp
  have r1: "r1 = None" using assms(1) b by (cases r1) (auto simp: setattr_def)
  have r2: "r2 = None" using assms(1,2) b d r1 in1 by (cases r2) (auto simp: setattr_def)
  have rf: "refresh c (registry st c) self2 = (None, self')"
    using assms(1,2) b d r1 r2 in1 by (auto simp: setattr_def)
  note R = refresh_None[OF rf]
  have ind: "map_independent c (registry st c) self2 \<longrightarrow>
               (\<forall>n\<in>set (registry st c). \<exists>x. object_getattr c self' n = Inr x \<and> dict self' n = Some x)"
  proof (intro impI ballI)
    fix n assume mi: "map_independent c (registry st c) self2" and n: "n \<in> set (registry st c)"
    from R have eq: "self' = self2\<lparr>dict := dict self'\<rparr>" by simp
    have "object_getattr c (self2\<lparr>dict := dict self'\<rparr>) n = object_getattr c self2 n"
      using mi n by (simp add: map_independent_def)
    then have "object_getattr c self' n = object_getattr c self2 n" using eq by simp
    then show "\<exists>x. object_getattr c self' n = Inr x \<and> dict self' n = Some x" using R n by auto
  qed
  show ?thesis using b d r2 R ind by auto
qed

lemma setattr_no_refresh:
  assumes "(\<forall>p. cls_attrs c name \<noteq> Some (FP p)) \<or> name \<notin> dom (dict (snd (super_setattr self name v)))"
  shows "setattr super_setattr st c self name v = super_setattr self name v"
proof (cases "super_setattr self name v")
  case (Pair r self1)
  show ?thesis
  proof (cases r)
    case None
    then show ?thesis using assms Pair
      by (auto simp: setattr_def split: option.splits ns_entry.splits)
  next
    case (Some e)
    then show ?thesis using Pair by (simp add: setattr_def)
  qed
qed

text \<open>
  Claim C1, as the code has it. The refresh runs only under the guard of
  \<^verbatim>\<open>__setattr__\<close>: the written name is a descriptor of the class and the standard path
  stored it in the map. After such a write completes, the setter has run on the instance
  the standard path left, and the result differs from the instance the setter left only
  in the map, at the names of the registry: each of these maps to the value its
  descriptor read returned on the instance as the setter left it, and every other key is
  as the setter left it. When the reads do not depend on the map, each registry name maps
  to what its read returns on the final instance. A write of any other name is the write
  of the standard path and nothing more.
\<close>

theorem setattr_refreshes_registry:
  "(setattr super_setattr st c self name v = (None, self')
      \<and> cls_attrs c name = Some (FP prop)
      \<and> name \<in> dom (dict (snd (super_setattr self name v))) \<longrightarrow>
    (\<exists>self2. descr_set prop (snd (super_setattr self name v)) v = (None, self2)
          \<and> slots self' = slots self2 \<and> fields_set self' = fields_set self2
          \<and> (\<forall>k. k \<notin> set (registry st c) \<longrightarrow> dict self' k = dict self2 k)
          \<and> (\<forall>n\<in>set (registry st c). \<exists>x. object_getattr c self2 n = Inr x \<and> dict self' n = Some x)
          \<and> (map_independent c (registry st c) self2 \<longrightarrow>
               (\<forall>n\<in>set (registry st c). \<exists>x. object_getattr c self' n = Inr x \<and> dict self' n = Some x))))
 \<and> ((\<forall>p. cls_attrs c name \<noteq> Some (FP p)) \<or> name \<notin> dom (dict (snd (super_setattr self name v))) \<longrightarrow>
      setattr super_setattr st c self name v = super_setattr self name v)"
proof (intro conjI impI)
  assume a: "setattr super_setattr st c self name v = (None, self')
      \<and> cls_attrs c name = Some (FP prop)
      \<and> name \<in> dom (dict (snd (super_setattr self name v)))"
  then have 1: "setattr super_setattr st c self name v = (None, self')"
    and 2: "cls_attrs c name = Some (FP prop)"
    and 3: "name \<in> dom (dict (snd (super_setattr self name v)))"
    by simp_all
  show "\<exists>self2. descr_set prop (snd (super_setattr self name v)) v = (None, self2)
          \<and> slots self' = slots self2 \<and> fields_set self' = fields_set self2
          \<and> (\<forall>k. k \<notin> set (registry st c) \<longrightarrow> dict self' k = dict self2 k)
          \<and> (\<forall>n\<in>set (registry st c). \<exists>x. object_getattr c self2 n = Inr x \<and> dict self' n = Some x)
          \<and> (map_independent c (registry st c) self2 \<longrightarrow>
               (\<forall>n\<in>set (registry st c). \<exists>x. object_getattr c self' n = Inr x \<and> dict self' n = Some x))"
    by (rule setattr_refresh[OF 1 2 3])
next
  assume b: "(\<forall>p. cls_attrs c name \<noteq> Some (FP p)) \<or> name \<notin> dom (dict (snd (super_setattr self name v)))"
  show "setattr super_setattr st c self name v = super_setattr self name v"
    using b by (rule setattr_no_refresh[of c name super_setattr self v st])
qed

theorem setattr_refreshes_registry_witness:
  "setattr (model_system_setattr [''_x''] [''x'']) props_store Props p0 ''x'' (PyInt 2)
     = (None, \<lparr>dict = [''x'' \<mapsto> PyInt 2], slots = [''_x'' \<mapsto> PyInt 2], fields_set = {''x''}\<rparr>)
   \<and> object_getattr Props \<lparr>dict = [''x'' \<mapsto> PyInt 2], slots = [''_x'' \<mapsto> PyInt 2], fields_set = {''x''}\<rparr> ''x''
       = Inr (PyInt 2)"
proof -
  let ?base = "model_system_setattr [''_x''] [''x'']"
  let ?p' = "\<lparr>dict = [''x'' \<mapsto> PyInt 2], slots = [''_x'' \<mapsto> PyInt 2], fields_set = {''x''}\<rparr>"
  have reg: "registry props_store Props = [''x'']"
    by (simp add: registry_def list_at_def Props_def props_store_def)
  have h1: "setattr ?base props_store Props p0 ''x'' (PyInt 2) = (None, ?p')"
    by (simp add: setattr_def model_system_setattr_def Props_def props_store_def p0_def x_prop_def
        slot_setter_def object_getattr_def descr_get_def descr_set_def internal_getter_def
        py_getattr_def registry_def list_at_def refresh_def)
  have h2: "cls_attrs Props ''x'' = Some (FP x_prop)" by (simp add: Props_def)
  have h3: "''x'' \<in> dom (dict (snd (?base p0 ''x'' (PyInt 2))))"
    by (simp add: model_system_setattr_def p0_def)
  have mi: "map_independent Props [''x''] s" if "slots s ''_x'' = Some (PyInt 2)" for s
    using that by (simp add: map_independent_def object_getattr_def descr_get_def internal_getter_def
        py_getattr_def Props_def x_prop_def)
  from setattr_refreshes_registry[of ?base props_store Props p0 "''x''" "PyInt 2" ?p' x_prop]
    h1 h2 h3 obtain self2 where
    s2: "descr_set x_prop (snd (?base p0 ''x'' (PyInt 2))) (PyInt 2) = (None, self2)"
    and imp: "map_independent Props (registry props_store Props) self2 \<longrightarrow>
       (\<forall>n\<in>set (registry props_store Props). \<exists>x. object_getattr Props ?p' n = Inr x \<and> dict ?p' n = Some x)"
    by blast
  from s2 have "slots self2 ''_x'' = Some (PyInt 2)"
    by (auto simp: descr_set_def x_prop_def slot_setter_def)
  then have "map_independent Props (registry props_store Props) self2" using mi reg by simp
  then have "\<exists>x. object_getattr Props ?p' ''x'' = Inr x \<and> dict ?p' ''x'' = Some x"
    using imp reg by simp
  then have "object_getattr Props ?p' ''x'' = Inr (PyInt 2)" by auto
  then show ?thesis using h1 by simp
qed

text \<open>
  Claim C1, as stated, fails for a write that the guard lets pass: writing the private
  slot \<^verbatim>\<open>_x\<close> of an instance whose map holds 0 for \<open>x\<close> completes, the read of \<open>x\<close>
  returns the new 7, and the map still holds 0 for the registry name \<open>x\<close>.
\<close>

theorem private_slot_write_leaves_map_stale:
  "setattr (model_system_setattr [''_x''] [''x'']) props_store Props p0 ''_x'' (PyInt 7)
     = (None, p0\<lparr>slots := [''_x'' \<mapsto> PyInt 7]\<rparr>)
   \<and> registry props_store Props = [''x'']
   \<and> dict (p0\<lparr>slots := [''_x'' \<mapsto> PyInt 7]\<rparr>) ''x'' = Some (PyInt 0)
   \<and> object_getattr Props (p0\<lparr>slots := [''_x'' \<mapsto> PyInt 7]\<rparr>) ''x'' = Inr (PyInt 7)"
  by (simp add: setattr_def model_system_setattr_def Props_def props_store_def p0_def x_prop_def
      slot_setter_def object_getattr_def descr_get_def internal_getter_def py_getattr_def
      registry_def list_at_def)

text \<open>
  Claim C5. Once the standard path and the setter have run, the write is the refresh of
  the instance the setter left. If the read of some registry name raises there, the write
  returns an error, which is the error of a registry read, and the instance is exactly
  the one the setter left: the refresh has written no key. If every read returns, the
  write completes and every registry name maps to the value read.
\<close>

theorem refresh_failure_aborts_write:
  assumes "super_setattr self name v = (None, self1)"
      and "cls_attrs c name = Some (FP prop)"
      and "name \<in> dom (dict self1)"
      and "descr_set prop self1 v = (None, self2)"
  shows "((\<exists>n\<in>set (registry st c). \<exists>e0. object_getattr c self2 n = Inl e0) \<longrightarrow>
            (\<exists>e. setattr super_setattr st c self name v = (Some e, self2)
               \<and> (\<exists>m\<in>set (registry st c). object_getattr c self2 m = Inl e)))
       \<and> ((\<forall>n\<in>set (registry st c). \<exists>x. object_getattr c self2 n = Inr x) \<longrightarrow>
            (\<exists>self'. setattr super_setattr st c self name v = (None, self')
               \<and> (\<forall>n\<in>set (registry st c). \<exists>x. object_getattr c self2 n = Inr x \<and> dict self' n = Some x)))"
proof -
  let ?reg = "registry st c"
  have w: "setattr super_setattr st c self name v = refresh c ?reg self2"
    using assms by (simp add: setattr_def)
  have fail: "(\<exists>n\<in>set ?reg. \<exists>e0. object_getattr c self2 n = Inl e0) \<longrightarrow>
            (\<exists>e. setattr super_setattr st c self name v = (Some e, self2)
               \<and> (\<exists>m\<in>set ?reg. object_getattr c self2 m = Inl e))"
  proof
    assume "\<exists>n\<in>set ?reg. \<exists>e0. object_getattr c self2 n = Inl e0"
    then obtain n e0 where n: "n \<in> set ?reg" and e0: "object_getattr c self2 n = Inl e0" by blast
    obtain e where e: "read_all c self2 ?reg = Inl e" using read_all_fails[OF n e0] by blast
    have "refresh c ?reg self2 = (Some e, self2)" using e by (simp add: refresh_def)
    then show "\<exists>e. setattr super_setattr st c self name v = (Some e, self2)
               \<and> (\<exists>m\<in>set ?reg. object_getattr c self2 m = Inl e)"
      using w read_all_Inl[OF e] by auto
  qed
  have ok: "(\<forall>n\<in>set ?reg. \<exists>x. object_getattr c self2 n = Inr x) \<longrightarrow>
            (\<exists>self'. setattr super_setattr st c self name v = (None, self')
               \<and> (\<forall>n\<in>set ?reg. \<exists>x. object_getattr c self2 n = Inr x \<and> dict self' n = Some x))"
  proof
    assume a: "\<forall>n\<in>set ?reg. \<exists>x. object_getattr c self2 n = Inr x"
    have "\<exists>kvs. read_all c self2 ?reg = Inr kvs"
    proof (cases "read_all c self2 ?reg")
      case (Inl e)
      then show ?thesis using read_all_Inl[OF Inl] a by auto
    next
      case (Inr kvs)
      then show ?thesis by simp
    qed
    then obtain kvs where kvs: "read_all c self2 ?reg = Inr kvs" by blast
    let ?s' = "self2\<lparr>dict := py_dict_update (dict self2) kvs\<rparr>"
    have rf: "refresh c ?reg self2 = (None, ?s')" using kvs by (simp add: refresh_def)
    have "\<forall>n\<in>set ?reg. \<exists>x. object_getattr c self2 n = Inr x \<and> dict ?s' n = Some x"
      using refresh_None[OF rf] by blast
    then show "\<exists>self'. setattr super_setattr st c self name v = (None, self')
               \<and> (\<forall>n\<in>set ?reg. \<exists>x. object_getattr c self2 n = Inr x \<and> dict self' n = Some x)"
      using w rf by auto
  qed
  show ?thesis using fail ok by blast
qed

theorem refresh_failure_aborts_write_witness:
  "object_getattr PropsZ \<lparr>dict = [''x'' \<mapsto> PyInt 2], slots = [''_x'' \<mapsto> PyInt 2], fields_set = {''x''}\<rparr> ''z''
     = Inl (AttributeError ''_z'')
   \<and> setattr (model_system_setattr [''_x'', ''_z''] [''x'', ''z'']) propsz_store PropsZ p0 ''x'' (PyInt 2)
     = (Some (AttributeError ''_z''),
        \<lparr>dict = [''x'' \<mapsto> PyInt 2], slots = [''_x'' \<mapsto> PyInt 2], fields_set = {''x''}\<rparr>)"
proof -
  let ?base = "model_system_setattr [''_x'', ''_z''] [''x'', ''z'']"
  let ?s1 = "\<lparr>dict = [''x'' \<mapsto> PyInt 2], slots = [''_x'' \<mapsto> PyInt 0], fields_set = {''x''}\<rparr>"
  let ?s2 = "\<lparr>dict = [''x'' \<mapsto> PyInt 2], slots = [''_x'' \<mapsto> PyInt 2], fields_set = {''x''}\<rparr>"
  have reg: "registry propsz_store PropsZ = [''x'', ''z'']"
    by (simp add: registry_def list_at_def PropsZ_def propsz_store_def)
  have h1: "?base p0 ''x'' (PyInt 2) = (None, ?s1)" by (simp add: model_system_setattr_def p0_def)
  have h2: "cls_attrs PropsZ ''x'' = Some (FP x_prop)" by (simp add: PropsZ_def)
  have h3: "''x'' \<in> dom (dict ?s1)" by simp
  have h4: "descr_set x_prop ?s1 (PyInt 2) = (None, ?s2)"
    by (simp add: descr_set_def x_prop_def slot_setter_def)
  have z: "object_getattr PropsZ ?s2 ''z'' = Inl (AttributeError ''_z'')"
    by (simp add: object_getattr_def PropsZ_def z_prop_def descr_get_def internal_getter_def
        py_getattr_def get_default_def)
  have x: "object_getattr PropsZ ?s2 ''x'' = Inr (PyInt 2)"
    by (simp add: object_getattr_def PropsZ_def x_prop_def descr_get_def internal_getter_def
        py_getattr_def)
  have "\<exists>n\<in>set (registry propsz_store PropsZ). \<exists>e0. object_getattr PropsZ ?s2 n = Inl e0"
    using reg z by simp
  with refresh_failure_aborts_write[of ?base p0 "''x''" "PyInt 2" ?s1 PropsZ x_prop ?s2 propsz_store,
      OF h1 h2 h3 h4]
  obtain e where e: "setattr ?base propsz_store PropsZ p0 ''x'' (PyInt 2) = (Some e, ?s2)"
    and m: "\<exists>m\<in>set (registry propsz_store PropsZ). object_getattr PropsZ ?s2 m = Inl e"
    by blast
  from m reg x z have "e = AttributeError ''_z''" by auto
  then show ?thesis using e z by simp
qed

section \<open>Class construction\<close>

text \<open>Assignment to a name of the class body, and what the first loop does to the body
  and to the annotations.\<close>

lemma map_of_ns_set: "map_of (ns_set ns k e) = (map_of ns)(k \<mapsto> e)"
  by (induction ns) (auto simp: fun_eq_iff)




lemma register_fields_append:
  "register_fields validate (xs @ ys) st =
     (case register_fields validate xs st of Inl e \<Rightarrow> Inl e | Inr st1 \<Rightarrow> register_fields validate ys st1)"
  by (induction xs arbitrary: st) (auto split: ns_entry.splits sum.splits)

lemma register_field_private:
  assumes "register_field validate varname field (ann, ns) = Inr (ann1, ns1)"
  shows "ns1 = (case private_name field of
                  Some p \<Rightarrow> if p \<noteq> [] then ns_set ns p (PrivAttr (default_value field) (default_factory field)) else ns
                | None \<Rightarrow> ns)"
  using assms
  by (auto simp: register_field_def private_attr_def split: option.splits sum.splits if_splits)

lemma register_fields_keeps:
  "register_fields validate snap (ann, ns) = Inr (ann1, ns1) \<Longrightarrow>
   (\<forall>v g. (v, FP g) \<in> set snap \<longrightarrow> private_name g \<noteq> Some p) \<Longrightarrow>
   map_of ns1 p = map_of ns p"
proof (induction snap arbitrary: ann ns)
  case Nil then show ?case by simp
next
  case (Cons x snap)
  obtain v entry where x: "x = (v, entry)" by (cases x)
  show ?case
  proof (cases entry)
    case (FP g)
    from Cons.prems(1) x FP obtain ann2 ns2 where
      s: "register_field validate v g (ann, ns) = Inr (ann2, ns2)"
      and r: "register_fields validate snap (ann2, ns2) = Inr (ann1, ns1)"
      by (auto split: sum.splits)
    have np: "private_name g \<noteq> Some p" using Cons.prems(2) x FP by auto
    have "map_of ns2 p = map_of ns p"
      using register_field_private[OF s] np by (auto simp: map_of_ns_set split: option.splits)
    moreover have "map_of ns1 p = map_of ns2 p"
      using Cons.IH[OF r] Cons.prems(2) by auto
    ultimately show ?thesis by simp
  qed (use Cons x in auto)
qed









text \<open>
  Claim C3, as the code has it. For a descriptor of the class body whose private name is
  a non-empty string, and after which no descriptor of the body has the same private
  name, the body after registration holds under that name the private storage
  declaration made from the descriptor's default and factory, whatever the body held
  under the name before.
\<close>

theorem registration_assigns_private_slot:
  assumes "register_fields validate namespace (class_annotations namespace, namespace) = Inr (annotations, namespace1)"
      and "namespace = pre @ (varname, FP field) # post"
      and "private_name field = Some p" and "p \<noteq> []"
      and "\<forall>v g. (v, FP g) \<in> set post \<longrightarrow> private_name g \<noteq> Some p"
  shows "map_of namespace1 p = Some (PrivAttr (default_value field) (default_factory field))"
proof -
  let ?st0 = "(class_annotations namespace, namespace)"
  from assms(1,2) obtain st1 where
    a: "register_fields validate pre ?st0 = Inr st1"
    and b: "register_fields validate ((varname, FP field) # post) st1 = Inr (annotations, namespace1)"
    by (auto simp: register_fields_append split: sum.splits)
  obtain ann1 ns1 where st1: "st1 = (ann1, ns1)" by (cases st1)
  from b st1 obtain ann2 ns2 where
    s: "register_field validate varname field (ann1, ns1) = Inr (ann2, ns2)"
    and r: "register_fields validate post (ann2, ns2) = Inr (annotations, namespace1)"
    by (auto split: sum.splits)
  have "ns2 = ns_set ns1 p (PrivAttr (default_value field) (default_factory field))"
    using register_field_private[OF s] assms(3,4) by simp
  then have "map_of ns2 p = Some (PrivAttr (default_value field) (default_factory field))"
    by (simp add: map_of_ns_set)
  then show ?thesis using register_fields_keeps[OF r assms(5)] by simp
qed

theorem registration_assigns_private_slot_witness:
  "register_fields field_info_validate sub_body (class_annotations sub_body, sub_body)
     = Inr ([''x'' \<mapsto> PyClass ''int'', ''z'' \<mapsto> PyClass ''int''],
            sub_body @ [(''_x'', PrivAttr (PyInt 0) None), (''_z'', PrivAttr Undefined None)])
   \<and> map_of (sub_body @ [(''_x'', PrivAttr (PyInt 0) None), (''_z'', PrivAttr Undefined None)]) ''_x''
     = Some (PrivAttr (default_value x_shorthand) (default_factory x_shorthand))"
proof -
  let ?ann = "[''x'' \<mapsto> PyClass ''int'', ''z'' \<mapsto> PyClass ''int'']"
  let ?ns1 = "sub_body @ [(''_x'', PrivAttr (PyInt 0) None), (''_z'', PrivAttr Undefined None)]"
  have h1: "register_fields field_info_validate sub_body (class_annotations sub_body, sub_body)
              = Inr (?ann, ?ns1)"
    by (simp add: sub_body_def class_annotations_def register_field_def private_attr_def field_info_validate_def
        x_shorthand_def z_prop_def)
  have h2: "sub_body = [(''__annotations__'', AnnDict ?ann)] @ (''x'', FP x_shorthand) # [(''z'', FP z_prop)]"
    by (simp add: sub_body_def)
  have h3: "private_name x_shorthand = Some ''_x''" by (simp add: x_shorthand_def)
  have h4: "''_x'' \<noteq> []" by simp
  have h5: "\<forall>v g. (v, FP g) \<in> set [(''z'', FP z_prop)] \<longrightarrow> private_name g \<noteq> Some ''_x''"
    by (simp add: z_prop_def)
  from registration_assigns_private_slot[OF h1 h2 h3 h4 h5] h1 show ?thesis by simp
qed

text \<open>
  Claim C3, as stated, fails: a class body that declares the slot \<^verbatim>\<open>_x\<close> itself, with
  the default 5, holds after registration the declaration made from the descriptor's
  default 0 under that name.
\<close>

theorem registration_overwrites_declared_slot:
  "map_of declared_slot_body ''_x'' = Some (PrivAttr (PyInt 5) None)
   \<and> register_fields field_info_validate declared_slot_body
        (class_annotations declared_slot_body, declared_slot_body)
     = Inr ([''x'' \<mapsto> PyClass ''int''], [(''_x'', PrivAttr (PyInt 0) None), (''x'', FP x_prop)])"
  by (simp add: declared_slot_body_def class_annotations_def register_field_def private_attr_def
      field_info_validate_def x_prop_def get_type_def get_default_def)













end
